theory Spec2Isabelle
  imports Complex_Main
begin

section \<open>Syntax trees of the Python module ast\<close>

text \<open>
  The evaluator of \<^verbatim>\<open>bot.py\<close> walks the tree that \<^verbatim>\<open>ast.parse(expr, mode="eval")\<close>
  returns. The node classes below are those of Python's abstract grammar for expressions:
  the binary operators, the unary operators, the constants a literal can denote, and the
  expression nodes. The parameter \<open>'f\<close> is the type of floating-point numbers, which the
  development leaves abstract.
\<close>

datatype operator =
  Add | Sub | Mult | MatMult | Div | Mod | Pow_op | LShift | RShift
  | BitOr | BitXor | BitAnd | FloorDiv

datatype unaryop = Invert | Not_op | UAdd | USub

datatype boolop = And_op | Or_op

datatype cmpop = Eq | NotEq | Lt | LtE | Gt | GtE | Is | IsNot | In_op | NotIn

datatype 'f pyconst =
  CInt int
  | CFloat 'f
  | CComplex 'f 'f
  | CBool bool
  | CStr string
  | CNone
  | CEllipsis

datatype 'f node =
  Expression "'f node"
  | Constant "'f pyconst"
  | BinOp "'f node" operator "'f node"
  | UnaryOp unaryop "'f node"
  | BoolOp boolop "'f node list"
  | Compare "'f node" "cmpop list" "'f node list"
  | Call "'f node" "'f node list"
  | Attribute "'f node" string
  | Subscript "'f node" "'f node"
  | Name string
  | IfExp "'f node" "'f node" "'f node"
  | Tuple "'f node list"
  | OtherNode string "'f node list"

section \<open>Values and exceptions\<close>

text \<open>
  A numeric literal denotes an \<open>int\<close> (unbounded), a \<open>float\<close> or a \<open>complex\<close> (a pair of
  floats). The exceptions are the subclasses of Python's \<open>Exception\<close> that parsing and
  arithmetic raise; only \<open>ValueError\<close> carries its message, since the message of the one
  \<open>safe_eval\<close> raises holds the input.
\<close>

datatype 'f pyval = PyInt int | PyFloat 'f | PyComplex 'f 'f

datatype exn =
  SyntaxError
  | ValueError string
  | ZeroDivisionError
  | TypeError
  | OverflowError

text \<open>
  Floating-point arithmetic is a parameter: a record of the operations of the C doubles
  underneath Python's \<open>float\<close> and \<open>complex\<close>. \<open>float_of_int\<close> is \<open>None\<close> where the
  integer is too large for a double (Python raises \<open>OverflowError\<close>), and so is
  \<open>long_true_divide\<close>, the correctly rounded quotient of two integers. \<open>float_pow\<close> and
  \<open>complex_pow\<close> may raise, and \<open>float_pow\<close> may return a complex number (a negative base
  with a fractional exponent). \<open>float_of_decimal m e\<close> is the double a literal with
  digits \<open>m\<close> and decimal exponent \<open>e\<close> denotes.
\<close>

record 'f float_ops =
  float_of_int :: "int \<Rightarrow> 'f option"
  float_of_decimal :: "int \<Rightarrow> int \<Rightarrow> 'f"
  float_zero :: "'f"
  float_is_zero :: "'f \<Rightarrow> bool"
  float_neg :: "'f \<Rightarrow> 'f"
  float_add :: "'f \<Rightarrow> 'f \<Rightarrow> 'f"
  float_sub :: "'f \<Rightarrow> 'f \<Rightarrow> 'f"
  float_mul :: "'f \<Rightarrow> 'f \<Rightarrow> 'f"
  float_div :: "'f \<Rightarrow> 'f \<Rightarrow> 'f"
  float_rem :: "'f \<Rightarrow> 'f \<Rightarrow> 'f"
  float_floor_div :: "'f \<Rightarrow> 'f \<Rightarrow> 'f"
  float_pow :: "'f \<Rightarrow> 'f \<Rightarrow> exn + 'f pyval"
  long_true_divide :: "int \<Rightarrow> int \<Rightarrow> 'f option"
  complex_add :: "'f \<times> 'f \<Rightarrow> 'f \<times> 'f \<Rightarrow> 'f \<times> 'f"
  complex_sub :: "'f \<times> 'f \<Rightarrow> 'f \<times> 'f \<Rightarrow> 'f \<times> 'f"
  complex_mul :: "'f \<times> 'f \<Rightarrow> 'f \<times> 'f \<Rightarrow> 'f \<times> 'f"
  complex_div :: "'f \<times> 'f \<Rightarrow> 'f \<times> 'f \<Rightarrow> 'f \<times> 'f"
  complex_pow :: "'f \<times> 'f \<Rightarrow> 'f \<times> 'f \<Rightarrow> exn + 'f \<times> 'f"

section \<open>The functions of the module operator\<close>

text \<open>
  \<open>ALLOWED_OPERATORS\<close> maps node classes to functions of Python's \<open>operator\<close> module.
  \<open>opfun\<close> names the eight functions the table holds; \<open>call_op\<close> is what calling one of
  them on a list of positional arguments does, including the \<open>TypeError\<close> of a call with
  the wrong number of arguments.
\<close>

datatype opfun =
  op_add | op_sub | op_mul | op_truediv | op_pow | op_neg | op_mod | op_floordiv

fun as_float :: "'f float_ops \<Rightarrow> 'f pyval \<Rightarrow> exn + 'f" where
  "as_float F (PyInt i) =
     (case float_of_int F i of None \<Rightarrow> Inl OverflowError | Some x \<Rightarrow> Inr x)"
| "as_float F (PyFloat x) = Inr x"
| "as_float F (PyComplex re im) = Inl TypeError"

fun as_complex :: "'f float_ops \<Rightarrow> 'f pyval \<Rightarrow> exn + 'f \<times> 'f" where
  "as_complex F (PyComplex re im) = Inr (re, im)"
| "as_complex F v =
     (case as_float F v of Inl e \<Rightarrow> Inl e | Inr x \<Rightarrow> Inr (x, float_zero F))"

fun is_complex :: "'f pyval \<Rightarrow> bool" where
  "is_complex (PyComplex re im) = True"
| "is_complex v = False"

text \<open>\<open>int\<close> with \<open>int\<close>: exact, but for true division and a negative exponent.\<close>

fun long_op :: "'f float_ops \<Rightarrow> opfun \<Rightarrow> int \<Rightarrow> int \<Rightarrow> exn + 'f pyval" where
  "long_op F op_add x y = Inr (PyInt (x + y))"
| "long_op F op_sub x y = Inr (PyInt (x - y))"
| "long_op F op_mul x y = Inr (PyInt (x * y))"
| "long_op F op_truediv x y =
     (if y = 0 then Inl ZeroDivisionError
      else (case long_true_divide F x y of
              None \<Rightarrow> Inl OverflowError
            | Some q \<Rightarrow> Inr (PyFloat q)))"
| "long_op F op_mod x y =
     (if y = 0 then Inl ZeroDivisionError else Inr (PyInt (x mod y)))"
| "long_op F op_floordiv x y =
     (if y = 0 then Inl ZeroDivisionError else Inr (PyInt (x div y)))"
| "long_op F op_pow x y =
     (if 0 \<le> y then Inr (PyInt (x ^ nat y))
      else (case as_float F (PyInt x) of
              Inl e \<Rightarrow> Inl e
            | Inr a \<Rightarrow> (case as_float F (PyInt y) of
                         Inl e \<Rightarrow> Inl e
                       | Inr b \<Rightarrow> float_pow F a b)))"
| "long_op F op_neg x y = Inl TypeError"

text \<open>\<open>float\<close> with \<open>float\<close>, after an \<open>int\<close> operand has been converted.\<close>

fun float_op :: "'f float_ops \<Rightarrow> opfun \<Rightarrow> 'f \<Rightarrow> 'f \<Rightarrow> exn + 'f pyval" where
  "float_op F op_add a b = Inr (PyFloat (float_add F a b))"
| "float_op F op_sub a b = Inr (PyFloat (float_sub F a b))"
| "float_op F op_mul a b = Inr (PyFloat (float_mul F a b))"
| "float_op F op_truediv a b =
     (if float_is_zero F b then Inl ZeroDivisionError
      else Inr (PyFloat (float_div F a b)))"
| "float_op F op_mod a b =
     (if float_is_zero F b then Inl ZeroDivisionError
      else Inr (PyFloat (float_rem F a b)))"
| "float_op F op_floordiv a b =
     (if float_is_zero F b then Inl ZeroDivisionError
      else Inr (PyFloat (float_floor_div F a b)))"
| "float_op F op_pow a b = float_pow F a b"
| "float_op F op_neg a b = Inl TypeError"

text \<open>
  \<open>complex\<close> with \<open>complex\<close>. Python 3 has no modulo and no floor division of complex
  numbers: both raise \<open>TypeError\<close>; \<open>binary_op\<close> raises it before any conversion.
\<close>

fun complex_op ::
  "'f float_ops \<Rightarrow> opfun \<Rightarrow> 'f \<times> 'f \<Rightarrow> 'f \<times> 'f \<Rightarrow> exn + 'f pyval" where
  "complex_op F op_add a b =
     Inr (PyComplex (fst (complex_add F a b)) (snd (complex_add F a b)))"
| "complex_op F op_sub a b =
     Inr (PyComplex (fst (complex_sub F a b)) (snd (complex_sub F a b)))"
| "complex_op F op_mul a b =
     Inr (PyComplex (fst (complex_mul F a b)) (snd (complex_mul F a b)))"
| "complex_op F op_truediv a b =
     (if float_is_zero F (fst b) \<and> float_is_zero F (snd b) then Inl ZeroDivisionError
      else Inr (PyComplex (fst (complex_div F a b)) (snd (complex_div F a b))))"
| "complex_op F op_pow a b =
     (case complex_pow F a b of
        Inl e \<Rightarrow> Inl e
      | Inr c \<Rightarrow> Inr (PyComplex (fst c) (snd c)))"
| "complex_op F op_mod a b = Inl TypeError"
| "complex_op F op_floordiv a b = Inl TypeError"
| "complex_op F op_neg a b = Inl TypeError"

text \<open>
  A binary function of \<open>operator\<close> on two numbers: the wider of the two operand types
  decides which arithmetic is used, and the narrower operand is converted first.
\<close>

fun binary_op :: "'f float_ops \<Rightarrow> opfun \<Rightarrow> 'f pyval \<Rightarrow> 'f pyval \<Rightarrow> exn + 'f pyval" where
  "binary_op F f (PyInt x) (PyInt y) = long_op F f x y"
| "binary_op F f a b =
     (if is_complex a \<or> is_complex b then
        (if f = op_mod \<or> f = op_floordiv then Inl TypeError
         else (case as_complex F a of
                 Inl e \<Rightarrow> Inl e
               | Inr x \<Rightarrow> (case as_complex F b of
                            Inl e \<Rightarrow> Inl e
                          | Inr y \<Rightarrow> complex_op F f x y)))
      else (case as_float F a of
              Inl e \<Rightarrow> Inl e
            | Inr x \<Rightarrow> (case as_float F b of
                         Inl e \<Rightarrow> Inl e
                       | Inr y \<Rightarrow> float_op F f x y)))"

fun neg :: "'f float_ops \<Rightarrow> 'f pyval \<Rightarrow> 'f pyval" where
  "neg F (PyInt x) = PyInt (- x)"
| "neg F (PyFloat x) = PyFloat (float_neg F x)"
| "neg F (PyComplex re im) = PyComplex (float_neg F re) (float_neg F im)"

fun call_op :: "'f float_ops \<Rightarrow> opfun \<Rightarrow> 'f pyval list \<Rightarrow> exn + 'f pyval" where
  "call_op F op_neg [a] = Inr (neg F a)"
| "call_op F op_neg args = Inl TypeError"
| "call_op F f [a, b] = binary_op F f a b"
| "call_op F f args = Inl TypeError"

section \<open>The evaluator of bot.py\<close>

text \<open>
  The keys of \<open>ALLOWED_OPERATORS\<close> are node classes: seven classes of binary
  operators and the class \<open>USub\<close> of the unary minus, in the order of the source.
\<close>

datatype op_class = Operator operator | Unaryop unaryop

definition ALLOWED_OPERATORS :: "(op_class \<times> opfun) list" where
  "ALLOWED_OPERATORS =
     [(Operator Add, op_add),
      (Operator Sub, op_sub),
      (Operator Mult, op_mul),
      (Operator Div, op_truediv),
      (Operator Pow_op, op_pow),
      (Unaryop USub, op_neg),
      (Operator Mod, op_mod),
      (Operator FloorDiv, op_floordiv)]"

text \<open>
  \<^verbatim>\<open>isinstance(node, ast.Num)\<close> holds of a constant node whose value is an \<open>int\<close>, a
  \<open>float\<close> or a \<open>complex\<close>, and not of one whose value is a \<open>bool\<close>; \<^verbatim>\<open>node.n\<close> is that
  value. (This is the behaviour of the Python versions that have \<^verbatim>\<open>ast.Num\<close>, which the
  source relies on.)
\<close>

fun is_Num :: "'f node \<Rightarrow> bool" where
  "is_Num (Constant (CInt i)) = True"
| "is_Num (Constant (CFloat x)) = True"
| "is_Num (Constant (CComplex re im)) = True"
| "is_Num n = False"

fun n_of :: "'f pyconst \<Rightarrow> 'f pyval option" where
  "n_of (CInt i) = Some (PyInt i)"
| "n_of (CFloat x) = Some (PyFloat x)"
| "n_of (CComplex re im) = Some (PyComplex re im)"
| "n_of c = None"

text \<open>
  The nested function \<^verbatim>\<open>_eval\<close>: the branches of its \<^verbatim>\<open>if\<close>/\<^verbatim>\<open>elif\<close> chain in order,
  every path that leaves the chain ending in \<^verbatim>\<open>raise ValueError("Unsupported expression")\<close>.
  Python evaluates the callee \<^verbatim>\<open>ALLOWED_OPERATORS[type(node.op)]\<close> first, then the
  arguments from left to right, then the call.
\<close>

fun eval_node :: "'f float_ops \<Rightarrow> 'f node \<Rightarrow> exn + 'f pyval" where
  "eval_node F (Expression body) = eval_node F body"
| "eval_node F (Constant c) =
     (case n_of c of
        Some v \<Rightarrow> Inr v
      | None \<Rightarrow> Inl (ValueError ''Unsupported expression''))"
| "eval_node F (BinOp left op right) =
     (case map_of ALLOWED_OPERATORS (Operator op) of
        Some f \<Rightarrow>
          (case eval_node F left of
             Inl e \<Rightarrow> Inl e
           | Inr l \<Rightarrow> (case eval_node F right of
                        Inl e \<Rightarrow> Inl e
                      | Inr r \<Rightarrow> call_op F f [l, r]))
      | None \<Rightarrow> Inl (ValueError ''Unsupported expression''))"
| "eval_node F (UnaryOp op operand) =
     (case map_of ALLOWED_OPERATORS (Unaryop op) of
        Some f \<Rightarrow>
          (case eval_node F operand of
             Inl e \<Rightarrow> Inl e
           | Inr v \<Rightarrow> call_op F f [v])
      | None \<Rightarrow> Inl (ValueError ''Unsupported expression''))"
| "eval_node F n = Inl (ValueError ''Unsupported expression'')"

text \<open>
  \<^verbatim>\<open>safe_eval\<close>: parse, evaluate, and turn every exception of either step into
  \<^verbatim>\<open>ValueError(f"Invalid expression: {expr}")\<close>. The parser is the library function
  \<^verbatim>\<open>ast.parse\<close>, taken as a parameter.
\<close>

definition safe_eval ::
  "'f float_ops \<Rightarrow> (string \<Rightarrow> exn + 'f node) \<Rightarrow> string \<Rightarrow> exn + 'f pyval" where
  "safe_eval F parse expr =
     (case parse expr of
        Inl e \<Rightarrow> Inl (ValueError (''Invalid expression: '' @ expr))
      | Inr node \<Rightarrow>
          (case eval_node F node of
             Inl e \<Rightarrow> Inl (ValueError (''Invalid expression: '' @ expr))
           | Inr v \<Rightarrow> Inr v))"

section \<open>The library parser\<close>

text \<open>
  \<^verbatim>\<open>ast.parse(expr, mode="eval")\<close> is not part of \<^verbatim>\<open>bot.py\<close>; \<open>safe_eval\<close> above takes
  it as a parameter, and every statement about trees holds for any parser. To run the
  evaluator on strings, this section models the library function on the part of Python's
  syntax that arithmetic needs: the lexical analysis of CPython 3.11 (indentation of the
  first line, blank lines, comments, line continuation, newlines inside parentheses, the
  numeric literals) and the grammar of expressions from \<open>bitwise_or\<close> down (the thirteen
  binary operators, the three prefix operators, parentheses, numbers, names and the
  constants \<open>True\<close>, \<open>False\<close>, \<open>None\<close>). On any other input the model raises
  \<open>SyntaxError\<close>, where Python either raises as well or returns a tree with a node that
  \<open>eval_node\<close> rejects (a comparison, a call, a string, ...), so that \<open>safe_eval\<close> fails
  either way. Limits of resources (recursion depth, the length of integer literals) are
  not modelled.
\<close>

subsection \<open>Tokens\<close>

datatype 'f token =
  NUMBER "'f pyconst"
  | NAME string
  | PLUS | MINUS | STAR | SLASH | DOUBLESLASH | PERCENT | DOUBLESTAR | AT
  | LEFTSHIFT | RIGHTSHIFT | AMPER | VBAR | CIRCUMFLEX | TILDE
  | LPAR | RPAR
  | NEWLINE | ENDMARKER

subsection \<open>Numeric literals\<close>

text \<open>
  \<open>digit_run P acc cs\<close> reads digits with single underscores between them, as the
  tokenizer's \<^verbatim>\<open>tok_decimal_tail\<close> does: an underscore must be followed by a digit.
\<close>

definition isdigit :: "char \<Rightarrow> bool" where
  "isdigit c = (c \<in> set ''0123456789'')"

definition isxdigit :: "char \<Rightarrow> bool" where
  "isxdigit c = (c \<in> set ''0123456789abcdefABCDEF'')"

definition isodigit :: "char \<Rightarrow> bool" where
  "isodigit c = (c \<in> set ''01234567'')"

definition isbdigit :: "char \<Rightarrow> bool" where
  "isbdigit c = (c \<in> set ''01'')"

definition is_name_start :: "char \<Rightarrow> bool" where
  "is_name_start c = (c \<in> set ''abcdefghijklmnopqrstuvwxyzABCDEFGHIJKLMNOPQRSTUVWXYZ_'')"

definition is_name_char :: "char \<Rightarrow> bool" where
  "is_name_char c = (is_name_start c \<or> isdigit c)"

definition digit_value :: "char \<Rightarrow> nat" where
  "digit_value c =
     (case map_of
        [(CHR ''0'', 0), (CHR ''1'', 1), (CHR ''2'', 2), (CHR ''3'', 3), (CHR ''4'', 4),
         (CHR ''5'', 5), (CHR ''6'', 6), (CHR ''7'', 7), (CHR ''8'', 8), (CHR ''9'', 9),
         (CHR ''a'', 10), (CHR ''b'', 11), (CHR ''c'', 12), (CHR ''d'', 13),
         (CHR ''e'', 14), (CHR ''f'', 15),
         (CHR ''A'', 10), (CHR ''B'', 11), (CHR ''C'', 12), (CHR ''D'', 13),
         (CHR ''E'', 14), (CHR ''F'', 15)] c of
        Some v \<Rightarrow> v
      | None \<Rightarrow> 0)"

definition nat_of_digits :: "nat \<Rightarrow> string \<Rightarrow> nat" where
  "nat_of_digits base ds = foldl (\<lambda>a c. a * base + digit_value c) 0 ds"

fun digit_run :: "(char \<Rightarrow> bool) \<Rightarrow> string \<Rightarrow> string \<Rightarrow> (string \<times> string) option" where
  "digit_run P acc [] = Some (acc, [])"
| "digit_run P acc (c # cs) =
     (if P c then digit_run P (acc @ [c]) cs
      else if c = CHR ''_'' then
        (case cs of
           [] \<Rightarrow> None
         | d # ds \<Rightarrow> if P d then digit_run P acc cs else None)
      else Some (acc, c # cs))"

fun starts_with :: "(char \<Rightarrow> bool) \<Rightarrow> string \<Rightarrow> bool" where
  "starts_with P [] = False"
| "starts_with P (c # cs) = P c"

definition digitpart :: "string \<Rightarrow> (string \<times> string) option" where
  "digitpart cs = (if starts_with isdigit cs then digit_run isdigit [] cs else Some ([], cs))"

text \<open>
  A literal may not run into a name: Python rejects \<^verbatim>\<open>1a\<close>, and where it lets a keyword
  follow (\<^verbatim>\<open>1if 2 else 3\<close>) the tree is one that \<open>eval_node\<close> rejects.
\<close>

definition end_of_number :: "'a \<Rightarrow> string \<Rightarrow> exn + 'a \<times> string" where
  "end_of_number v cs =
     (if starts_with (\<lambda>c. is_name_char c \<or> 128 \<le> (of_char c :: nat)) cs then Inl SyntaxError
      else Inr (v, cs))"

definition based_literal ::
  "nat \<Rightarrow> (char \<Rightarrow> bool) \<Rightarrow> string \<Rightarrow> exn + 'f pyconst \<times> string" where
  "based_literal base P cs =
     (case digit_run P [] cs of
        None \<Rightarrow> Inl SyntaxError
      | Some (ds, rest) \<Rightarrow>
          if ds = [] then Inl SyntaxError
          else end_of_number (CInt (int (nat_of_digits base ds))) rest)"

text \<open>
  The exponent of a floating-point literal: \<open>None\<close> is a malformed exponent, \<open>Some None\<close>
  no exponent, \<open>Some (Some (x, rest))\<close> the exponent \<open>x\<close> and the text after it.
\<close>

fun exponent_part :: "string \<Rightarrow> (int \<times> string) option option" where
  "exponent_part (e # cs) =
     (if e = CHR ''e'' \<or> e = CHR ''E'' then
        (case cs of
           [] \<Rightarrow> None
         | s # ds \<Rightarrow>
             if s = CHR ''+'' \<or> s = CHR ''-'' then
               (if starts_with isdigit ds then
                  (case digit_run isdigit [] ds of
                     None \<Rightarrow> None
                   | Some (ed, rest) \<Rightarrow>
                       Some (Some ((if s = CHR ''-'' then - 1 else 1) * int (nat_of_digits 10 ed),
                                   rest)))
                else None)
             else if isdigit s then
               (case digit_run isdigit [] cs of
                  None \<Rightarrow> None
                | Some (ed, rest) \<Rightarrow> Some (Some (int (nat_of_digits 10 ed), rest)))
             else None)
      else Some None)"
| "exponent_part [] = Some None"

text \<open>
  A decimal literal: integer part, optional fraction, optional exponent, optional \<open>j\<close>.
  With a fraction or an exponent it is a \<open>float\<close>, with a \<open>j\<close> an imaginary number, and
  else an \<open>int\<close>, which may have leading zeros only if it is zero. The value of a
  floating-point literal with digits \<open>m\<close> and decimal exponent \<open>e\<close> is
  \<open>float_of_decimal F m e\<close>.
\<close>

definition decimal_literal :: "'f float_ops \<Rightarrow> string \<Rightarrow> exn + 'f pyconst \<times> string" where
  "decimal_literal F cs =
     (case digitpart cs of
        None \<Rightarrow> Inl SyntaxError
      | Some (ip, r1) \<Rightarrow>
          (case (if starts_with (\<lambda>c. c = CHR ''.'') r1
                 then map_option (\<lambda>(fp, r). (True, fp, r)) (digitpart (tl r1))
                 else Some (False, [], r1)) of
             None \<Rightarrow> Inl SyntaxError
           | Some (point, fp, r2) \<Rightarrow>
               (case exponent_part r2 of
                  None \<Rightarrow> Inl SyntaxError
                | Some ex \<Rightarrow>
                    (let r3 = (case ex of None \<Rightarrow> r2 | Some (x, r) \<Rightarrow> r);
                         x = (case ex of None \<Rightarrow> 0 | Some (x, r) \<Rightarrow> x);
                         m = int (nat_of_digits 10 (ip @ fp));
                         d = float_of_decimal F m (x - int (length fp))
                     in if starts_with (\<lambda>c. c = CHR ''j'' \<or> c = CHR ''J'') r3
                        then end_of_number (CComplex (float_zero F) d) (tl r3)
                        else if point \<or> ex \<noteq> None then end_of_number (CFloat d) r3
                        else if starts_with (\<lambda>c. c = CHR ''0'') ip
                                \<and> (\<exists>c \<in> set ip. c \<noteq> CHR ''0'')
                        then Inl SyntaxError
                        else end_of_number (CInt (int (nat_of_digits 10 ip))) r3))))"

fun lex_number :: "'f float_ops \<Rightarrow> string \<Rightarrow> exn + 'f pyconst \<times> string" where
  "lex_number F (z # x # cs) =
     (if z = CHR ''0'' \<and> (x = CHR ''x'' \<or> x = CHR ''X'') then based_literal 16 isxdigit cs
      else if z = CHR ''0'' \<and> (x = CHR ''o'' \<or> x = CHR ''O'') then based_literal 8 isodigit cs
      else if z = CHR ''0'' \<and> (x = CHR ''b'' \<or> x = CHR ''B'') then based_literal 2 isbdigit cs
      else decimal_literal F (z # x # cs))"
| "lex_number F cs = decimal_literal F cs"

subsection \<open>The tokenizer\<close>

text \<open>
  Source text is read with universal newlines. At the beginning of a line the tokenizer
  measures the indentation (a form feed resets it, a backslash-newline carries it over to
  the next line); a line holding only blanks or a comment is skipped, and any other line
  of \<^verbatim>\<open>eval\<close> input that is indented is an error. In the middle of a line, blanks and
  comments are skipped, a backslash must be followed by a newline and more text, and a
  newline ends the logical line unless a parenthesis is open.
\<close>

fun translate_newlines :: "string \<Rightarrow> string" where
  "translate_newlines [] = []"
| "translate_newlines [c] = (if c = CHR 0x0D then [CHR 0x0A] else [c])"
| "translate_newlines (c # d # cs) =
     (if c = CHR 0x0D \<and> d = CHR 0x0A then CHR 0x0A # translate_newlines cs
      else if c = CHR 0x0D then CHR 0x0A # translate_newlines (d # cs)
      else c # translate_newlines (d # cs))"

fun indentation :: "nat \<Rightarrow> nat \<Rightarrow> string \<Rightarrow> (nat \<times> string) option" where
  "indentation col cont [] = Some (if cont \<noteq> 0 then cont else col, [])"
| "indentation col cont (c # cs) =
     (if c = CHR '' '' then indentation (col + 1) cont cs
      else if c = CHR 0x09 then indentation ((col div 8 + 1) * 8) cont cs
      else if c = CHR 0x0C then indentation 0 cont cs
      else if c = CHR 0x5C then
        (case cs of
           d # e # rest \<Rightarrow>
             if d = CHR 0x0A then indentation col (if cont \<noteq> 0 then cont else col) (e # rest)
             else None
         | _ \<Rightarrow> None)
      else Some (if cont \<noteq> 0 then cont else col, c # cs))"

definition emit :: "'t \<Rightarrow> exn + 't list \<Rightarrow> exn + 't list" where
  "emit t r = (case r of Inl e \<Rightarrow> Inl e | Inr ts \<Rightarrow> Inr (t # ts))"

definition lex_op :: "char \<Rightarrow> string \<Rightarrow> ('f token \<times> string) option" where
  "lex_op c cs =
     (if c = CHR ''+'' then Some (PLUS, cs)
      else if c = CHR ''-'' then Some (MINUS, cs)
      else if c = CHR ''*'' then
        (if starts_with (\<lambda>d. d = CHR ''*'') cs then Some (DOUBLESTAR, tl cs) else Some (STAR, cs))
      else if c = CHR ''/'' then
        (if starts_with (\<lambda>d. d = CHR ''/'') cs then Some (DOUBLESLASH, tl cs) else Some (SLASH, cs))
      else if c = CHR ''%'' then Some (PERCENT, cs)
      else if c = CHR ''@'' then Some (AT, cs)
      else if c = CHR ''<'' then
        (if starts_with (\<lambda>d. d = CHR ''<'') cs then Some (LEFTSHIFT, tl cs) else None)
      else if c = CHR ''>'' then
        (if starts_with (\<lambda>d. d = CHR ''>'') cs then Some (RIGHTSHIFT, tl cs) else None)
      else if c = CHR ''&'' then Some (AMPER, cs)
      else if c = CHR ''|'' then Some (VBAR, cs)
      else if c = CHR ''^'' then Some (CIRCUMFLEX, cs)
      else if c = CHR ''~'' then Some (TILDE, cs)
      else None)"

text \<open>
  One step in the middle of a line, at a character \<open>c\<close> that is not a newline: the
  token read, if any, and the text after it.
\<close>

definition scan1 :: "'f float_ops \<Rightarrow> char \<Rightarrow> string \<Rightarrow> exn + 'f token option \<times> string" where
  "scan1 F c cs =
     (if c = CHR '' '' \<or> c = CHR 0x09 \<or> c = CHR 0x0C then Inr (None, cs)
      else if c = CHR ''#'' then Inr (None, dropWhile (\<lambda>d. d \<noteq> CHR 0x0A) cs)
      else if c = CHR 0x5C then
        (case cs of
           d # e # rest \<Rightarrow> if d = CHR 0x0A then Inr (None, e # rest) else Inl SyntaxError
         | _ \<Rightarrow> Inl SyntaxError)
      else if isdigit c \<or> (c = CHR ''.'' \<and> starts_with isdigit cs) then
        (case lex_number F (c # cs) of
           Inl e \<Rightarrow> Inl e
         | Inr (v, rest) \<Rightarrow> Inr (Some (NUMBER v), rest))
      else if is_name_start c then
        Inr (Some (NAME (c # takeWhile is_name_char cs)), dropWhile is_name_char cs)
      else if c = CHR ''('' then Inr (Some LPAR, cs)
      else if c = CHR '')'' then Inr (Some RPAR, cs)
      else (case lex_op c cs of
              None \<Rightarrow> Inl SyntaxError
            | Some (t, rest) \<Rightarrow> Inr (Some t, rest)))"

fun new_level :: "nat \<Rightarrow> 'f token \<Rightarrow> nat option" where
  "new_level level LPAR = Some (Suc level)"
| "new_level level RPAR = (if level = 0 then None else Some (level - 1))"
| "new_level level t = Some level"

text \<open>Every scanning step returns a suffix of its input: the tokenizer terminates.\<close>

lemma digit_run_length: "digit_run P acc cs = Some (ds, rest) \<Longrightarrow> length rest \<le> length cs"
  by (induction P acc cs rule: digit_run.induct) (auto split: if_splits list.splits)


lemma indentation_length:
  "indentation col cont cs = Some (col', rest) \<Longrightarrow> length rest \<le> length cs"
  by (induction col cont cs rule: indentation.induct)
     (auto split: if_splits list.splits simp del: One_nat_def)

lemma digitpart_length: "digitpart cs = Some (ds, rest) \<Longrightarrow> length rest \<le> length cs"
  by (auto simp: digitpart_def dest: digit_run_length split: if_splits)

lemma end_of_number_length: "end_of_number v cs = Inr (v', rest) \<Longrightarrow> rest = cs"
  by (auto simp: end_of_number_def split: if_splits)

lemma based_literal_length:
  "based_literal base P cs = Inr (v, rest) \<Longrightarrow> length rest \<le> length cs"
  by (auto simp: based_literal_def dest!: digit_run_length end_of_number_length
      split: option.splits if_splits)

lemma exponent_part_length:
  "exponent_part cs = Some (Some (x, rest)) \<Longrightarrow> length rest < length cs"
  by (cases cs) (auto dest!: digit_run_length split: option.splits if_splits list.splits)

lemma digit_run_shorter:
  "digit_run P acc (c # cs) = Some (ds, rest) \<Longrightarrow> P c \<Longrightarrow> length rest \<le> length cs"
  by (auto dest: digit_run_length)

lemma digitpart_shorter:
  "digitpart cs = Some (ds, rest) \<Longrightarrow> starts_with isdigit cs \<Longrightarrow> length rest < length cs"
  by (cases cs) (auto simp: digitpart_def dest: digit_run_length)


lemma starts_with_tl: "starts_with P cs \<Longrightarrow> length (tl cs) < length cs"
  by (cases cs) auto

lemma decimal_literal_shorter:
  assumes "decimal_literal F cs = Inr (v, rest)"
    and "starts_with isdigit cs \<or> starts_with (\<lambda>c. c = CHR ''.'') cs"
  shows "length rest < length cs"
proof -
  from assms(1) obtain ip r1 where ip: "digitpart cs = Some (ip, r1)"
    by (auto simp: decimal_literal_def split: option.splits)
  from assms(1) ip obtain point fp r2 where
    fr: "(if starts_with (\<lambda>c. c = CHR ''.'') r1
          then map_option (\<lambda>(fp, r). (True, fp, r)) (digitpart (tl r1))
          else Some (False, [], r1)) = Some (point, fp, r2)"
    by (auto simp: decimal_literal_def split: option.splits)
  from assms(1) ip fr obtain ex where ex: "exponent_part r2 = Some ex"
    by (auto simp: decimal_literal_def split: option.splits)
  define r3 where "r3 = (case ex of None \<Rightarrow> r2 | Some (x, r) \<Rightarrow> r)"
  have l1: "length r1 \<le> length cs" using ip by (rule digitpart_length)
  have l2: "length r2 \<le> length r1"
    using fr starts_with_tl [of "\<lambda>c. c = CHR ''.''" r1]
    by (auto split: if_splits dest!: digitpart_length)
  have l3: "length r3 \<le> length r2"
    using ex exponent_part_length [of r2] by (cases ex) (auto simp: r3_def)
  have l4: "length rest \<le> length r3"
    using assms(1) ip fr ex starts_with_tl [of "\<lambda>c. c = CHR ''j'' \<or> c = CHR ''J''" r3]
    by (auto simp: decimal_literal_def r3_def Let_def split: if_splits
        dest!: end_of_number_length)
  have strict: "length r2 < length cs"
  proof (cases "starts_with isdigit cs")
    case True
    then have "length r1 < length cs" using ip by (auto dest: digitpart_shorter)
    with l2 show ?thesis by simp
  next
    case False
    with assms(2) have dot: "starts_with (\<lambda>c. c = CHR ''.'') cs" by simp
    from False ip have "r1 = cs" by (simp add: digitpart_def)
    with dot fr have "length r2 \<le> length (tl cs)"
      by (auto dest!: digitpart_length)
    with starts_with_tl [OF dot] show ?thesis by simp
  qed
  with l3 l4 show ?thesis by simp
qed

lemma lex_number_shorter:
  assumes "lex_number F (c # cs) = Inr (v, rest)"
    and "isdigit c \<or> c = CHR ''.''"
  shows "length rest \<le> length cs"
proof (cases cs)
  case Nil
  with assms show ?thesis using decimal_literal_shorter [of F "[c]" v rest] by auto
next
  case (Cons x xs)
  with assms show ?thesis
    using decimal_literal_shorter [of F "c # x # xs" v rest]
    by (auto split: if_splits dest!: based_literal_length)
qed

lemma lex_op_length: "lex_op c cs = Some (t, rest) \<Longrightarrow> length rest \<le> length cs"
  by (auto simp: lex_op_def split: if_splits)

lemma scan1_length:
  assumes "scan1 F c cs = Inr (t, rest)"
  shows "length rest \<le> length cs"
proof -
  have d1: "length (dropWhile (\<lambda>d. d \<noteq> CHR 0x0A) cs) \<le> length cs"
    by (rule length_dropWhile_le)
  have d2: "length (dropWhile is_name_char cs) \<le> length cs"
    by (rule length_dropWhile_le)
  show ?thesis
    using assms d1 d2
    by (auto simp: scan1_def split: if_splits list.splits sum.splits option.splits
        dest: lex_number_shorter lex_op_length)
qed

text \<open>
  \<open>tok_get F atbol level cs\<close>: the tokens of \<open>cs\<close>, at the beginning of a line if
  \<open>atbol\<close>, with \<open>level\<close> parentheses open.
\<close>

function tok_get :: "'f float_ops \<Rightarrow> bool \<Rightarrow> nat \<Rightarrow> string \<Rightarrow> exn + 'f token list" where
  "tok_get F True level cs =
     (case indentation 0 0 cs of
        None \<Rightarrow> Inl SyntaxError
      | Some (col, []) \<Rightarrow> if col = 0 then Inr [ENDMARKER] else Inl SyntaxError
      | Some (col, c # rest) \<Rightarrow>
          if c = CHR 0x0A then tok_get F True level rest
          else if c = CHR ''#'' then tok_get F True level (dropWhile (\<lambda>d. d \<noteq> CHR 0x0A) rest)
          else if col \<noteq> 0 then Inl SyntaxError
          else tok_get F False level (c # rest))"
| "tok_get F False level [] =
     (if level = 0 then Inr [NEWLINE, ENDMARKER] else Inl SyntaxError)"
| "tok_get F False level (c # cs) =
     (if c = CHR 0x0A then
        (if level = 0 then emit NEWLINE (tok_get F True level cs)
         else tok_get F False level cs)
      else
        (case scan1 F c cs of
           Inl e \<Rightarrow> Inl e
         | Inr (None, rest) \<Rightarrow> tok_get F False level rest
         | Inr (Some t, rest) \<Rightarrow>
             (case new_level level t of
                None \<Rightarrow> Inl SyntaxError
              | Some level' \<Rightarrow> emit t (tok_get F False level' rest))))"
  by pat_completeness auto
termination
proof (relation "measure (\<lambda>(F, atbol, level, cs). 2 * length cs + (if atbol then 1 else 0))",
    goal_cases)
  case 1
  show ?case by simp
next
  case (2 F level cs x1 col rest c cs')
  then show ?case using indentation_length [of 0 0 cs col rest] by auto
next
  case (3 F level cs x1 col rest c cs')
  then show ?case
    using indentation_length [of 0 0 cs col rest]
      length_dropWhile_le [of "\<lambda>d. d \<noteq> CHR 0x0A" cs']
    by auto
next
  case (4 F level cs x1 col rest c cs')
  then show ?case using indentation_length [of 0 0 cs col rest] by auto
next
  case 5
  then show ?case by simp
next
  case 6
  then show ?case by simp
next
  case (7 F level c cs x2 t rest)
  then show ?case using scan1_length [of F c cs t rest] by simp
next
  case (8 F level c cs x2 t rest t' level')
  then show ?case using scan1_length [of F c cs t rest] by simp
qed

declare tok_get.simps [simp del]

subsection \<open>The grammar of expressions\<close>

text \<open>
  A recursive-descent parser for Python's rules
  \<^verbatim>\<open>atom: NUMBER | NAME | '(' expr ')'\<close>,
  \<^verbatim>\<open>power: atom ['**' factor]\<close>,
  \<^verbatim>\<open>factor: ('+'|'-'|'~') factor | power\<close>
  and the six levels of left-associative binary operators above them, which
  \<open>binop_at\<close> numbers from the tightest: 1 for \<^verbatim>\<open>* / // % @\<close>, 2 for \<^verbatim>\<open>+ -\<close>, 3 for the
  shifts, 4 for \<^verbatim>\<open>&\<close>, 5 for \<^verbatim>\<open>^\<close>, 6 for \<^verbatim>\<open>|\<close>. \<open>parse_binary l\<close> parses an operand of
  level \<open>l\<close>, and \<open>binary_rest l a\<close> continues an expression of level \<open>l + 1\<close> whose left
  operand \<open>a\<close> has been read. The tests on lengths make the recursion visibly
  terminating; \<open>parse_length\<close> below shows that they never fail.
\<close>

definition kwlist :: "string list" where
  "kwlist =
     [''False'', ''None'', ''True'', ''and'', ''as'', ''assert'', ''async'', ''await'',
      ''break'', ''class'', ''continue'', ''def'', ''del'', ''elif'', ''else'', ''except'',
      ''finally'', ''for'', ''from'', ''global'', ''if'', ''import'', ''in'', ''is'',
      ''lambda'', ''nonlocal'', ''not'', ''or'', ''pass'', ''raise'', ''return'', ''try'',
      ''while'', ''with'', ''yield'']"

fun binop_at :: "nat \<Rightarrow> 'f token \<Rightarrow> operator option" where
  "binop_at l STAR = (if l = 1 then Some Mult else None)"
| "binop_at l SLASH = (if l = 1 then Some Div else None)"
| "binop_at l DOUBLESLASH = (if l = 1 then Some FloorDiv else None)"
| "binop_at l PERCENT = (if l = 1 then Some Mod else None)"
| "binop_at l AT = (if l = 1 then Some MatMult else None)"
| "binop_at l PLUS = (if l = 2 then Some Add else None)"
| "binop_at l MINUS = (if l = 2 then Some Sub else None)"
| "binop_at l LEFTSHIFT = (if l = 3 then Some LShift else None)"
| "binop_at l RIGHTSHIFT = (if l = 3 then Some RShift else None)"
| "binop_at l AMPER = (if l = 4 then Some BitAnd else None)"
| "binop_at l CIRCUMFLEX = (if l = 5 then Some BitXor else None)"
| "binop_at l VBAR = (if l = 6 then Some BitOr else None)"
| "binop_at l t = None"

definition name_atom :: "string \<Rightarrow> exn + 'f node" where
  "name_atom x =
     (if x = ''True'' then Inr (Constant (CBool True))
      else if x = ''False'' then Inr (Constant (CBool False))
      else if x = ''None'' then Inr (Constant CNone)
      else if x \<in> set kwlist then Inl SyntaxError
      else Inr (Name x))"

fun parse_atom :: "'f token list \<Rightarrow> exn + 'f node \<times> 'f token list"
  and parse_power :: "'f token list \<Rightarrow> exn + 'f node \<times> 'f token list"
  and parse_factor :: "'f token list \<Rightarrow> exn + 'f node \<times> 'f token list"
  and parse_binary :: "nat \<Rightarrow> 'f token list \<Rightarrow> exn + 'f node \<times> 'f token list"
  and binary_rest :: "nat \<Rightarrow> 'f node \<Rightarrow> 'f token list \<Rightarrow> exn + 'f node \<times> 'f token list"
  where
  "parse_atom (NUMBER c # ts) = Inr (Constant c, ts)"
| "parse_atom (NAME x # ts) =
     (case name_atom x of Inl e \<Rightarrow> Inl e | Inr n \<Rightarrow> Inr (n, ts))"
| "parse_atom (LPAR # ts) =
     (case parse_binary 6 ts of
        Inl e \<Rightarrow> Inl e
      | Inr (n, ts') \<Rightarrow>
          (case ts' of
             RPAR # ts'' \<Rightarrow> Inr (n, ts'')
           | _ \<Rightarrow> Inl SyntaxError))"
| "parse_atom ts = Inl SyntaxError"
| "parse_power ts =
     (case parse_atom ts of
        Inl e \<Rightarrow> Inl e
      | Inr (a, ts') \<Rightarrow>
          (case ts' of
             DOUBLESTAR # ts'' \<Rightarrow>
               (if length ts'' < length ts then
                  (case parse_factor ts'' of
                     Inl e \<Rightarrow> Inl e
                   | Inr (b, ts''') \<Rightarrow> Inr (BinOp a Pow_op b, ts'''))
                else Inl SyntaxError)
           | _ \<Rightarrow> Inr (a, ts')))"
| "parse_factor (PLUS # ts) =
     (case parse_factor ts of Inl e \<Rightarrow> Inl e | Inr (n, ts') \<Rightarrow> Inr (UnaryOp UAdd n, ts'))"
| "parse_factor (MINUS # ts) =
     (case parse_factor ts of Inl e \<Rightarrow> Inl e | Inr (n, ts') \<Rightarrow> Inr (UnaryOp USub n, ts'))"
| "parse_factor (TILDE # ts) =
     (case parse_factor ts of Inl e \<Rightarrow> Inl e | Inr (n, ts') \<Rightarrow> Inr (UnaryOp Invert n, ts'))"
| "parse_factor ts = parse_power ts"
| "parse_binary 0 ts = parse_factor ts"
| "parse_binary (Suc l) ts =
     (case parse_binary l ts of
        Inl e \<Rightarrow> Inl e
      | Inr (a, ts') \<Rightarrow>
          (if length ts' \<le> length ts then binary_rest l a ts' else Inl SyntaxError))"
| "binary_rest l a [] = Inr (a, [])"
| "binary_rest l a (t # ts) =
     (case binop_at (Suc l) t of
        None \<Rightarrow> Inr (a, t # ts)
      | Some op \<Rightarrow>
          (case parse_binary l ts of
             Inl e \<Rightarrow> Inl e
           | Inr (b, ts') \<Rightarrow>
               (if length ts' \<le> length ts then binary_rest l (BinOp a op b) ts'
                else Inl SyntaxError)))"

definition parse_tokens :: "'f token list \<Rightarrow> exn + 'f node" where
  "parse_tokens ts =
     (case parse_binary 6 ts of
        Inl e \<Rightarrow> Inl e
      | Inr (n, ts') \<Rightarrow>
          (case ts' of
             [NEWLINE, ENDMARKER] \<Rightarrow> Inr (Expression n)
           | _ \<Rightarrow> Inl SyntaxError))"

definition ast_parse :: "'f float_ops \<Rightarrow> string \<Rightarrow> exn + 'f node" where
  "ast_parse F source =
     (if CHR 0x00 \<in> set source then Inl SyntaxError
      else (case tok_get F True 0 (translate_newlines source) of
              Inl e \<Rightarrow> Inl e
            | Inr ts \<Rightarrow> parse_tokens ts))"

section \<open>An exact instance of the floating-point interface\<close>

text \<open>
  To run the definitions on concrete inputs, \<open>exact_ops\<close> instantiates the interface
  with exact rational arithmetic: no rounding and no overflow. The powers that leave the
  rationals raise \<open>OverflowError\<close>. It stands for no particular hardware; the theorems
  below hold for every instance of the interface.
\<close>

definition exact_ops :: "rat float_ops" where
  "exact_ops =
     \<lparr> float_of_int = (\<lambda>i. Some (of_int i)),
       float_of_decimal =
         (\<lambda>m e. if 0 \<le> e then of_int (m * 10 ^ nat e) else of_int m / of_int (10 ^ nat (- e))),
       float_zero = 0,
       float_is_zero = (\<lambda>x. x = 0),
       float_neg = uminus,
       float_add = (+),
       float_sub = (-),
       float_mul = (*),
       float_div = (/),
       float_rem = (\<lambda>a b. a - b * of_int \<lfloor>a / b\<rfloor>),
       float_floor_div = (\<lambda>a b. of_int \<lfloor>a / b\<rfloor>),
       float_pow =
         (\<lambda>a b. if b \<noteq> of_int \<lfloor>b\<rfloor> then Inl OverflowError
                else if a = 0 \<and> b < 0 then Inl ZeroDivisionError
                else Inr (PyFloat (if 0 \<le> b then a ^ nat \<lfloor>b\<rfloor> else 1 / a ^ nat (- \<lfloor>b\<rfloor>)))),
       long_true_divide = (\<lambda>x y. Some (of_int x / of_int y)),
       complex_add = (\<lambda>(a, b) (c, d). (a + c, b + d)),
       complex_sub = (\<lambda>(a, b) (c, d). (a - c, b - d)),
       complex_mul = (\<lambda>(a, b) (c, d). (a * c - b * d, a * d + b * c)),
       complex_div =
         (\<lambda>(a, b) (c, d). ((a * c + b * d) / (c * c + d * d), (b * c - a * d) / (c * c + d * d))),
       complex_pow = (\<lambda>a b. Inl OverflowError) \<rparr>"

section \<open>Shapes of nodes\<close>

text \<open>\<open>subnodes t\<close> lists every node of the tree \<open>t\<close>, the root first.\<close>

fun subnodes :: "'f node \<Rightarrow> 'f node list" where
  "subnodes (Expression body) = Expression body # subnodes body"
| "subnodes (Constant c) = [Constant c]"
| "subnodes (BinOp left op right) = BinOp left op right # subnodes left @ subnodes right"
| "subnodes (UnaryOp op operand) = UnaryOp op operand # subnodes operand"
| "subnodes (BoolOp op vs) = BoolOp op vs # concat (map subnodes vs)"
| "subnodes (Compare left ops cs) = Compare left ops cs # subnodes left @ concat (map subnodes cs)"
| "subnodes (Call func args) = Call func args # subnodes func @ concat (map subnodes args)"
| "subnodes (Attribute v a) = Attribute v a # subnodes v"
| "subnodes (Subscript v i) = Subscript v i # subnodes v @ subnodes i"
| "subnodes (Name x) = [Name x]"
| "subnodes (IfExp c a b) = IfExp c a b # subnodes c @ subnodes a @ subnodes b"
| "subnodes (Tuple xs) = Tuple xs # concat (map subnodes xs)"
| "subnodes (OtherNode k xs) = OtherNode k xs # concat (map subnodes xs)"

text \<open>
  The four shapes of node that the specification allows: the \<open>Expression\<close> wrapper, a
  numeric literal, a binary operation with one of the seven arithmetic operators, and a
  unary minus.
\<close>

fun arithmetic_shape :: "'f node \<Rightarrow> bool" where
  "arithmetic_shape (Expression body) = True"
| "arithmetic_shape (Constant c) = is_Num (Constant c)"
| "arithmetic_shape (BinOp left op right) =
     (op \<in> {Add, Sub, Mult, Div, Mod, Pow_op, FloorDiv})"
| "arithmetic_shape (UnaryOp op operand) = (op = USub)"
| "arithmetic_shape n = False"

text \<open>
  A value is zero: the integer 0, a float that compares equal to zero, or a complex
  number with both parts zero. \<open>zero_ok\<close> says that the interface agrees with itself on
  zero: its constant zero is zero, and so is the float of the integer 0.
\<close>

fun is_zero :: "'f float_ops \<Rightarrow> 'f pyval \<Rightarrow> bool" where
  "is_zero F (PyInt i) = (i = 0)"
| "is_zero F (PyFloat x) = float_is_zero F x"
| "is_zero F (PyComplex re im) = (float_is_zero F re \<and> float_is_zero F im)"

definition zero_ok :: "'f float_ops \<Rightarrow> bool" where
  "zero_ok F =
     (float_is_zero F (float_zero F)
      \<and> (case float_of_int F 0 of None \<Rightarrow> True | Some x \<Rightarrow> float_is_zero F x))"



section \<open>Lemmas\<close>

subsection \<open>The evaluator\<close>

lemma is_Num_n_of: "is_Num (Constant c) \<longleftrightarrow> n_of c \<noteq> None"
  by (cases c) auto

lemma allowed_binary:
  "map_of ALLOWED_OPERATORS (Operator op) =
     (if op = Add then Some op_add else if op = Sub then Some op_sub
      else if op = Mult then Some op_mul else if op = Div then Some op_truediv
      else if op = Pow_op then Some op_pow else if op = Mod then Some op_mod
      else if op = FloorDiv then Some op_floordiv else None)"
  by (cases op) (simp_all add: ALLOWED_OPERATORS_def)

lemma allowed_unary:
  "map_of ALLOWED_OPERATORS (Unaryop op) = (if op = USub then Some op_neg else None)"
  by (cases op) (simp_all add: ALLOWED_OPERATORS_def)

lemma not_arithmetic_raises:
  "\<not> arithmetic_shape n \<Longrightarrow> \<exists>e. eval_node F n = Inl e"
  by (cases n) (auto simp: is_Num_n_of allowed_binary allowed_unary split: option.splits)

lemma raises_propagates:
  "n \<in> set (subnodes t) \<Longrightarrow> eval_node F n = Inl e \<Longrightarrow> \<exists>e'. eval_node F t = Inl e'"
proof (induction t)
  case (BinOp l op r)
  then show ?case
    by (auto split: option.splits sum.splits)
next
  case (UnaryOp op x)
  then show ?case
    by (auto split: option.splits sum.splits)
qed auto



lemma safe_eval_parse_error:
  "parse expr = Inl e \<Longrightarrow>
   safe_eval F parse expr = Inl (ValueError (''Invalid expression: '' @ expr))"
  by (simp add: safe_eval_def)

lemma safe_eval_eval_error:
  "parse expr = Inr t \<Longrightarrow> eval_node F t = Inl e \<Longrightarrow>
   safe_eval F parse expr = Inl (ValueError (''Invalid expression: '' @ expr))"
  by (simp add: safe_eval_def)


lemma division_by_zero_raises:
  assumes "zero_ok F" and "f = op_truediv \<or> f = op_mod \<or> f = op_floordiv" and "is_zero F b"
  shows "\<exists>e. binary_op F f a b = Inl e"
  using assms
  by (cases a; cases b)
     (auto simp: zero_ok_def split: option.splits sum.splits)

lemma eval_binop_zero_divisor:
  assumes "zero_ok F" and "op = Div \<or> op = Mod \<or> op = FloorDiv"
    and "eval_node F right = Inr z" and "is_zero F z"
  shows "\<exists>e. eval_node F (BinOp left op right) = Inl e"
proof -
  from assms(2) obtain f where f: "map_of ALLOWED_OPERATORS (Operator op) = Some f"
    and fk: "f = op_truediv \<or> f = op_mod \<or> f = op_floordiv"
    by (auto simp: allowed_binary)
  show ?thesis
  proof (cases "eval_node F left")
    case (Inl e)
    with f show ?thesis by simp
  next
    case (Inr a)
    from division_by_zero_raises [OF assms(1) fk assms(4)]
    obtain e where "binary_op F f a z = Inl e" by blast
    moreover have "call_op F f [a, z] = binary_op F f a z"
      using fk by auto
    ultimately show ?thesis using f Inr assms(3) by simp
  qed
qed

lemma zero_ok_exact: "zero_ok exact_ops"
  by (simp add: zero_ok_def exact_ops_def)

subsection \<open>Running the parser\<close>

text \<open>
  The recursion of the parser never fails its tests on lengths, which gives its
  equations without them.
\<close>

lemma parse_length:
  fixes ts ts1 ts2 ts3 ts4 :: "'f token list"
  shows "parse_atom ts = Inr (n, r) \<Longrightarrow> length r \<le> length ts"
    and "parse_power ts1 = Inr (n1, r1) \<Longrightarrow> length r1 \<le> length ts1"
    and "parse_factor ts2 = Inr (n2, r2) \<Longrightarrow> length r2 \<le> length ts2"
    and "parse_binary l ts3 = Inr (n3, r3) \<Longrightarrow> length r3 \<le> length ts3"
    and "binary_rest l' a ts4 = Inr (n4, r4) \<Longrightarrow> length r4 \<le> length ts4"
proof (induction ts and ts1 and ts2 and l ts3 and l' a ts4
    arbitrary: n r and n1 r1 and n2 r2 and n3 r3 and n4 r4
    rule: parse_atom_parse_power_parse_factor_parse_binary_binary_rest.induct)
qed (fastforce split: sum.splits prod.splits list.splits token.splits option.splits if_splits)+

lemma parse_power_unfold:
  "parse_power ts =
     (case parse_atom ts of
        Inl e \<Rightarrow> Inl e
      | Inr (a, ts') \<Rightarrow>
          (case ts' of
             DOUBLESTAR # ts'' \<Rightarrow>
               (case parse_factor ts'' of
                  Inl e \<Rightarrow> Inl e
                | Inr (b, ts''') \<Rightarrow> Inr (BinOp a Pow_op b, ts'''))
           | _ \<Rightarrow> Inr (a, ts')))"
  using parse_length(1) [of ts]
  by (auto split: sum.splits prod.splits list.splits token.splits)

lemma parse_binary_unfold:
  "0 < l \<Longrightarrow>
   parse_binary l ts =
     (case parse_binary (l - 1) ts of
        Inl e \<Rightarrow> Inl e
      | Inr (a, ts') \<Rightarrow> binary_rest (l - 1) a ts')"
  using parse_length(4) [of "l - 1" ts]
  by (cases l) (auto split: sum.splits prod.splits)

lemma binary_rest_unfold:
  "binary_rest l a (t # ts) =
     (case binop_at (Suc l) t of
        None \<Rightarrow> Inr (a, t # ts)
      | Some op \<Rightarrow>
          (case parse_binary l ts of
             Inl e \<Rightarrow> Inl e
           | Inr (b, ts') \<Rightarrow> binary_rest l (BinOp a op b) ts'))"
  using parse_length(4) [of l ts]
  by (auto split: sum.splits prod.splits option.splits)

text \<open>The equations that evaluate the model on a concrete string.\<close>

lemmas lex_simps =
  isdigit_def isxdigit_def isodigit_def isbdigit_def is_name_start_def is_name_char_def
  digit_value_def nat_of_digits_def digitpart_def end_of_number_def based_literal_def
  decimal_literal_def lex_op_def scan1_def emit_def tok_get.simps

lemmas parse_simps =
  name_atom_def kwlist_def parse_tokens_def ast_parse_def parse_binary_unfold

lemmas eval_simps = ALLOWED_OPERATORS_def safe_eval_def


section \<open>The claims\<close>

text \<open>
  C1. An input whose tree holds an identifier, a call, an attribute access, a string
  literal, a boolean operator or a comparison (any node that is not of one of the four
  arithmetic shapes), and an input that does not parse (as several statements do not),
  makes \<open>safe_eval\<close> raise its one error, \<open>ValueError\<close> with the input in the message,
  whatever the parser: it returns no value.
\<close>

theorem C1_non_arithmetic_input_rejected:
  "(parse expr = Inl e \<longrightarrow>
      safe_eval F parse expr = Inl (ValueError (''Invalid expression: '' @ expr)))
   \<and> (parse expr = Inr tree \<and> n \<in> set (subnodes tree)
        \<and> (n = Name x \<or> n = Call func args \<or> n = Attribute v a \<or> n = Constant (CStr s)
             \<or> n = BoolOp bop vs \<or> n = Compare left ops cs \<or> n = UnaryOp Not_op operand
             \<or> \<not> arithmetic_shape n) \<longrightarrow>
      safe_eval F parse expr = Inl (ValueError (''Invalid expression: '' @ expr)))"
proof (intro conjI impI)
  assume "parse expr = Inl e"
  then show "safe_eval F parse expr = Inl (ValueError (''Invalid expression: '' @ expr))"
    by (rule safe_eval_parse_error)
next
  assume h: "parse expr = Inr tree \<and> n \<in> set (subnodes tree)
        \<and> (n = Name x \<or> n = Call func args \<or> n = Attribute v a \<or> n = Constant (CStr s)
             \<or> n = BoolOp bop vs \<or> n = Compare left ops cs \<or> n = UnaryOp Not_op operand
             \<or> \<not> arithmetic_shape n)"
  then have p: "parse expr = Inr tree" and n: "n \<in> set (subnodes tree)"
    and "\<not> arithmetic_shape n"
    by auto
  then obtain e1 where "eval_node F n = Inl e1"
    using not_arithmetic_raises by blast
  with n obtain e2 where "eval_node F tree = Inl e2"
    using raises_propagates by blast
  with p show "safe_eval F parse expr = Inl (ValueError (''Invalid expression: '' @ expr))"
    by (rule safe_eval_eval_error)
qed

theorem C1_witness:
  "ast_parse exact_ops ''1;2'' = Inl SyntaxError
   \<and> safe_eval exact_ops (ast_parse exact_ops) ''1;2'' = Inl (ValueError ''Invalid expression: 1;2'')
   \<and> ast_parse exact_ops ''x+1'' = Inr (Expression (BinOp (Name ''x'') Add (Constant (CInt 1))))
   \<and> Name ''x'' \<in> set (subnodes (Expression (BinOp (Name ''x'') Add (Constant (CInt 1)))))
   \<and> safe_eval exact_ops (ast_parse exact_ops) ''x+1'' = Inl (ValueError ''Invalid expression: x+1'')"
proof -
  have p1: "ast_parse exact_ops ''1;2'' = Inl SyntaxError"
    by (simp add: lex_simps parse_simps)
  have p2: "ast_parse exact_ops ''x+1'' = Inr (Expression (BinOp (Name ''x'') Add (Constant (CInt 1))))"
    by (simp add: lex_simps parse_simps)
  have p3: "Name ''x'' \<in> set (subnodes (Expression (BinOp (Name ''x'') Add (Constant (CInt 1 :: rat pyconst)))))"
    by simp
  from C1_non_arithmetic_input_rejected
    [of "ast_parse exact_ops" "''1;2''" SyntaxError exact_ops]
    C1_non_arithmetic_input_rejected
    [of "ast_parse exact_ops" "''x+1''" _ exact_ops
        "Expression (BinOp (Name ''x'') Add (Constant (CInt 1)))" "Name ''x''" "''x''"]
    p1 p2 p3
  show ?thesis by simp
qed

text \<open>
  C3. The scenarios of the specification: \<open>2+3*5\<close> is 17, \<open>2**10\<close> is 1024, \<open>7//2\<close> is 3,
  \<open>7%2\<close> is 1 and \<open>-(3+4)\<close> is -7, for every floating-point arithmetic.
\<close>

theorem C3_concrete_scenarios:
  "safe_eval F (ast_parse F) ''2+3*5'' = Inr (PyInt 17)
   \<and> safe_eval F (ast_parse F) ''2**10'' = Inr (PyInt 1024)
   \<and> safe_eval F (ast_parse F) ''7//2'' = Inr (PyInt 3)
   \<and> safe_eval F (ast_parse F) ''7%2'' = Inr (PyInt 1)
   \<and> safe_eval F (ast_parse F) ''-(3+4)'' = Inr (PyInt (- 7))"
  by (simp add: lex_simps parse_simps eval_simps)

text \<open>
  C4. If the right operand of a division, a modulo or an integer division anywhere in the
  tree evaluates to zero, \<open>safe_eval\<close> raises its \<open>ValueError\<close>: the
  \<open>ZeroDivisionError\<close> (or, for complex numbers, the \<open>TypeError\<close>) of the operation does
  not escape. The floating-point interface is assumed to agree with itself on zero.
\<close>

theorem C4_division_by_zero:
  assumes "zero_ok F"
    and "parse expr = Inr tree"
    and "BinOp left op right \<in> set (subnodes tree)"
    and "op = Div \<or> op = Mod \<or> op = FloorDiv"
    and "eval_node F right = Inr z"
    and "is_zero F z"
  shows "safe_eval F parse expr = Inl (ValueError (''Invalid expression: '' @ expr))"
proof -
  from eval_binop_zero_divisor [OF assms(1) assms(4) assms(5) assms(6)]
  obtain e where "eval_node F (BinOp left op right) = Inl e" by blast
  with assms(3) obtain e' where "eval_node F tree = Inl e'"
    using raises_propagates by blast
  with assms(2) show ?thesis by (rule safe_eval_eval_error)
qed

theorem C4_witness:
  "zero_ok exact_ops
   \<and> ast_parse exact_ops ''1/0'' = Inr (Expression (BinOp (Constant (CInt 1)) Div (Constant (CInt 0))))
   \<and> BinOp (Constant (CInt 1)) Div (Constant (CInt 0))
       \<in> set (subnodes (Expression (BinOp (Constant (CInt 1)) Div (Constant (CInt 0)))))
   \<and> eval_node exact_ops (Constant (CInt 0)) = Inr (PyInt 0)
   \<and> is_zero exact_ops (PyInt 0)
   \<and> safe_eval exact_ops (ast_parse exact_ops) ''1/0'' = Inl (ValueError ''Invalid expression: 1/0'')"
proof -
  have p: "ast_parse exact_ops ''1/0''
      = Inr (Expression (BinOp (Constant (CInt 1)) Div (Constant (CInt 0))))"
    by (simp add: lex_simps parse_simps)
  have s: "BinOp (Constant (CInt 1)) Div (Constant (CInt 0))
       \<in> set (subnodes (Expression (BinOp (Constant (CInt 1)) Div (Constant (CInt 0 :: rat pyconst)))))"
    by simp
  have e: "eval_node exact_ops (Constant (CInt 0)) = Inr (PyInt 0)" by simp
  have z: "is_zero exact_ops (PyInt 0)" by simp
  have d: "Div = Div \<or> Div = Mod \<or> Div = FloorDiv" by simp
  from C4_division_by_zero
    [where parse = "ast_parse exact_ops" and expr = "''1/0''", OF zero_ok_exact p s d e z]
    zero_ok_exact p s e z
  show ?thesis by simp
qed



text \<open>
  C7. The table accepts the seven binary operators \<open>+ - * / % ** //\<close> and the unary
  minus, and nothing else: a tree with any other binary operator (such as the bitwise
  ones, the shifts and \<open>@\<close>) or any other unary operator (such as the unary plus) makes
  \<open>safe_eval\<close> raise its \<open>ValueError\<close>.
\<close>

theorem C7_only_table_operators:
  "(map_of ALLOWED_OPERATORS (Operator op) \<noteq> None
      \<longleftrightarrow> op \<in> {Add, Sub, Mult, Div, Mod, Pow_op, FloorDiv})
   \<and> (map_of ALLOWED_OPERATORS (Unaryop uop) \<noteq> None \<longleftrightarrow> uop = USub)
   \<and> (parse expr = Inr tree \<and> BinOp left op right \<in> set (subnodes tree)
        \<and> op \<notin> {Add, Sub, Mult, Div, Mod, Pow_op, FloorDiv} \<longrightarrow>
      safe_eval F parse expr = Inl (ValueError (''Invalid expression: '' @ expr)))
   \<and> (parse expr = Inr tree \<and> UnaryOp uop operand \<in> set (subnodes tree) \<and> uop \<noteq> USub \<longrightarrow>
      safe_eval F parse expr = Inl (ValueError (''Invalid expression: '' @ expr)))"
proof (intro conjI impI)
  show "map_of ALLOWED_OPERATORS (Operator op) \<noteq> None
      \<longleftrightarrow> op \<in> {Add, Sub, Mult, Div, Mod, Pow_op, FloorDiv}"
    by (simp add: allowed_binary)
  show "map_of ALLOWED_OPERATORS (Unaryop uop) \<noteq> None \<longleftrightarrow> uop = USub"
    by (simp add: allowed_unary)
next
  assume h: "parse expr = Inr tree \<and> BinOp left op right \<in> set (subnodes tree)
        \<and> op \<notin> {Add, Sub, Mult, Div, Mod, Pow_op, FloorDiv}"
  then have "\<not> arithmetic_shape (BinOp left op right)" by simp
  then obtain e where "eval_node F (BinOp left op right) = Inl e"
    using not_arithmetic_raises by blast
  with h obtain e' where "eval_node F tree = Inl e'"
    using raises_propagates by blast
  with h show "safe_eval F parse expr = Inl (ValueError (''Invalid expression: '' @ expr))"
    using safe_eval_eval_error by blast
next
  assume h: "parse expr = Inr tree \<and> UnaryOp uop operand \<in> set (subnodes tree) \<and> uop \<noteq> USub"
  then have "\<not> arithmetic_shape (UnaryOp uop operand)" by simp
  then obtain e where "eval_node F (UnaryOp uop operand) = Inl e"
    using not_arithmetic_raises by blast
  with h obtain e' where "eval_node F tree = Inl e'"
    using raises_propagates by blast
  with h show "safe_eval F parse expr = Inl (ValueError (''Invalid expression: '' @ expr))"
    using safe_eval_eval_error by blast
qed

theorem C7_witness:
  "ast_parse exact_ops ''1|2'' = Inr (Expression (BinOp (Constant (CInt 1)) BitOr (Constant (CInt 2))))
   \<and> safe_eval exact_ops (ast_parse exact_ops) ''1|2'' = Inl (ValueError ''Invalid expression: 1|2'')
   \<and> ast_parse exact_ops ''+1'' = Inr (Expression (UnaryOp UAdd (Constant (CInt 1))))
   \<and> safe_eval exact_ops (ast_parse exact_ops) ''+1'' = Inl (ValueError ''Invalid expression: +1'')"
proof -
  have p1: "ast_parse exact_ops ''1|2''
      = Inr (Expression (BinOp (Constant (CInt 1)) BitOr (Constant (CInt 2))))"
    by (simp add: lex_simps parse_simps)
  have p2: "ast_parse exact_ops ''+1'' = Inr (Expression (UnaryOp UAdd (Constant (CInt 1))))"
    by (simp add: lex_simps parse_simps)
  from C7_only_table_operators
    [of BitOr _ "ast_parse exact_ops" "''1|2''"
        "Expression (BinOp (Constant (CInt 1)) BitOr (Constant (CInt 2)))"
        "Constant (CInt 1)" "Constant (CInt 2)" exact_ops]
    C7_only_table_operators
    [of _ UAdd "ast_parse exact_ops" "''+1''"
        "Expression (UnaryOp UAdd (Constant (CInt 1)))" _ _ exact_ops "Constant (CInt 1)"]
    p1 p2
  show ?thesis by simp
qed

text \<open>
  C9. An imaginary literal is a numeric literal: \<open>2j*2\<close> evaluates, and its value is a
  complex number, the product of the complex numbers for \<open>2j\<close> and \<open>2\<close> (provided the
  integer 2 converts to a float, as it does for every real floating-point arithmetic).
\<close>

theorem C9_complex_literal:
  assumes "float_of_int F 2 = Some x"
  shows "safe_eval F (ast_parse F) ''2j*2''
     = Inr (PyComplex
         (fst (complex_mul F (float_zero F, float_of_decimal F 2 0) (x, float_zero F)))
         (snd (complex_mul F (float_zero F, float_of_decimal F 2 0) (x, float_zero F))))"
  using assms by (simp add: lex_simps parse_simps eval_simps)

theorem C9_witness:
  "float_of_int exact_ops 2 = Some 2
   \<and> safe_eval exact_ops (ast_parse exact_ops) ''2j*2'' = Inr (PyComplex 0 4)"
proof -
  have h: "float_of_int exact_ops 2 = Some 2" by (simp add: exact_ops_def)
  from C9_complex_literal [OF h] h show ?thesis by (simp add: exact_ops_def)
qed

text \<open>
  C10. A boolean literal is not a numeric literal: \<open>True\<close>, \<open>False\<close> and \<open>True+1\<close> make
  \<open>safe_eval\<close> raise its \<open>ValueError\<close>, and so does any input whose tree, whatever the
  parser, holds a boolean constant.
\<close>

theorem C10_booleans_rejected:
  "safe_eval F (ast_parse F) ''True'' = Inl (ValueError ''Invalid expression: True'')
   \<and> safe_eval F (ast_parse F) ''False'' = Inl (ValueError ''Invalid expression: False'')
   \<and> safe_eval F (ast_parse F) ''True+1'' = Inl (ValueError ''Invalid expression: True+1'')
   \<and> (parse expr = Inr tree \<and> Constant (CBool b) \<in> set (subnodes tree) \<longrightarrow>
        safe_eval F parse expr = Inl (ValueError (''Invalid expression: '' @ expr)))"
proof (intro conjI impI)
  assume h: "parse expr = Inr tree \<and> Constant (CBool b) \<in> set (subnodes tree)"
  have "\<not> arithmetic_shape (Constant (CBool b))" by simp
  then obtain e where "eval_node F (Constant (CBool b)) = Inl e"
    using not_arithmetic_raises by blast
  with h obtain e' where "eval_node F tree = Inl e'"
    using raises_propagates by blast
  with h show "safe_eval F parse expr = Inl (ValueError (''Invalid expression: '' @ expr))"
    using safe_eval_eval_error by blast
qed (simp_all add: lex_simps parse_simps eval_simps)

theorem C10_witness:
  "ast_parse exact_ops ''True+1'' = Inr (Expression (BinOp (Constant (CBool True)) Add (Constant (CInt 1))))
   \<and> Constant (CBool True)
       \<in> set (subnodes (Expression (BinOp (Constant (CBool True)) Add (Constant (CInt 1 :: rat pyconst)))))
   \<and> safe_eval exact_ops (ast_parse exact_ops) ''True+1'' = Inl (ValueError ''Invalid expression: True+1'')"
proof -
  have p: "ast_parse exact_ops ''True+1''
      = Inr (Expression (BinOp (Constant (CBool True)) Add (Constant (CInt 1))))"
    by (simp add: lex_simps parse_simps)
  from C10_booleans_rejected
    [of exact_ops "ast_parse exact_ops" "''True+1''"
        "Expression (BinOp (Constant (CBool True)) Add (Constant (CInt 1)))" True]
    p
  show ?thesis by simp
qed

end
